theory Spec2Isabelle
  imports
    Complex_Main
    "HOL-Library.Finite_Map"
    "HOL-Library.Log_Nat"
    "HOL-Library.List_Lexorder"
    "HOL-Library.Char_ord"
    "HOL-Library.Product_Lexorder"
begin

section \<open>The shared store\<close>

text \<open>
  The registries of \<^verbatim>\<open>rq/registries.py\<close> keep no state of their own: every method reads
  and writes the shared Redis store through the global \<^verbatim>\<open>connection\<close>. The store is
  modelled as a record with one field per kind of Redis value the registries touch. A
  sorted set is a finite map from member to score, a set is a finite set of members, a
  list is a list. Scores are the timestamps of \<^verbatim>\<open>connection.ftime()\<close>, double-precision
  floats; every finite double is a rational number, and a score is modelled by that
  rational, so comparisons of scores are exact as they are on doubles. The one arithmetic
  operation of the source, the subtraction of a duration from a timestamp, rounds; it is
  modelled below. Ids, names and keys are strings.

  \<open>clock\<close> is the time \<^verbatim>\<open>connection.ftime()\<close> reports. \<open>journal\<close> lists the write commands
  the server has executed, oldest first; it is how the order of effects is observed.
\<close>

type_synonym zset = "(string, rat) fmap"

datatype bound = NegInf | Score rat | PosInf

datatype command =
    ZADD string string rat
  | ZADD_XX_CH string string rat
  | ZREM string string
  | ZREMRANGEBYSCORE string bound bound
  | SADD string string
  | SREM string string
  | DELETE_TASKS "string list"

record store =
  zsets :: "string \<Rightarrow> zset"
  sets :: "string \<Rightarrow> string fset"
  lists :: "string \<Rightarrow> string list"
  tasks :: "(string, string) fmap"
  clock :: rat
  journal :: "command list"

datatype py_error = NoSuchWorkerError | AttributeError | TypeError

record settings =
  EXPIRING_REGISTRIES_TTL :: rat
  WORKER_HEARTBEAT_TIMEOUT :: rat

definition ftime :: "store \<Rightarrow> rat" where
  "ftime st = clock st"

subsection \<open>Score ranges\<close>

text \<open>
  The bounds of \<^verbatim>\<open>ZRANGEBYSCORE\<close> and \<^verbatim>\<open>ZREMRANGEBYSCORE\<close> are inclusive; \<^verbatim>\<open>'-inf'\<close> and
  \<^verbatim>\<open>'+inf'\<close> are the two unbounded ends.
\<close>

fun min_ok :: "bound \<Rightarrow> rat \<Rightarrow> bool" where
  "min_ok NegInf s = True"
| "min_ok (Score a) s = (a \<le> s)"
| "min_ok PosInf s = False"

fun max_ok :: "rat \<Rightarrow> bound \<Rightarrow> bool" where
  "max_ok s NegInf = False"
| "max_ok s (Score b) = (s \<le> b)"
| "max_ok s PosInf = True"

definition in_range :: "bound \<Rightarrow> bound \<Rightarrow> rat \<Rightarrow> bool" where
  "in_range lo hi s = (min_ok lo s \<and> max_ok s hi)"

subsection \<open>Floating-point subtraction\<close>

text \<open>
  The source computes \<^verbatim>\<open>timestamp - settings.EXPIRING_REGISTRIES_TTL\<close> and
  \<^verbatim>\<open>connection.ftime() - settings.WORKER_HEARTBEAT_TIMEOUT\<close> on floats. The result is not
  the exact difference but a double near it, or an infinity; it is passed to the store as
  the upper bound of a score range. The registries below take this subtraction as the
  parameter \<open>fsub\<close>, and nothing is assumed of it: what is proved of them holds whatever
  the subtraction returns.

  \<open>double_sub\<close> is the subtraction of IEEE 754 binary64 on finite arguments, rounding to
  nearest with ties to even: the exact difference is scaled to a significand of 53 bits
  (fewer below \<open>2 ^ -1022\<close>, where the exponent stays at \<open>-1074\<close>), rounded to an integer and
  scaled back; a result of magnitude \<open>2 ^ 1024\<close> or more is an infinity. It is the
  subtraction of the concrete runs.
\<close>

definition pow2 :: "int \<Rightarrow> rat" where
  "pow2 e = (if 0 \<le> e then 2 ^ nat e else 1 / 2 ^ nat (- e))"

definition floor_log2 :: "rat \<Rightarrow> int" where
  "floor_log2 x =
     (if 1 \<le> x then bitlen \<lfloor>x\<rfloor> - 1
      else (let b = bitlen \<lfloor>1 / x\<rfloor>
            in if x * pow2 b = 2 then 1 - b else - b))"

definition half_even :: "rat \<Rightarrow> int" where
  "half_even m =
     (let f = \<lfloor>m\<rfloor>; d = m - of_int f
      in if d < 1 / 2 then f
         else if 1 / 2 < d then f + 1
         else if even f then f else f + 1)"

definition double_round :: "rat \<Rightarrow> rat" where
  "double_round x =
     (if x = 0 then 0
      else (let a = \<bar>x\<bar>;
                e = max (floor_log2 a - 52) (- 1074);
                r = of_int (half_even (a / pow2 e)) * pow2 e
            in if x < 0 then - r else r))"

definition double_sub :: "rat \<Rightarrow> rat \<Rightarrow> bound" where
  "double_sub a b =
     (let r = double_round (a - b)
      in if r = 0 then Score 0
         else if 1024 \<le> floor_log2 \<bar>r\<bar> then (if 0 < r then PosInf else NegInf)
         else Score r)"

subsection \<open>Read commands\<close>

text \<open>
  A sorted set is enumerated in ascending order of score, members of equal score in
  lexicographic order.
\<close>

definition zentries :: "zset \<Rightarrow> (string \<times> rat) list" where
  "zentries z = sort_key (\<lambda>(m, s). (s, m)) (sorted_list_of_fmap z)"

definition zrange :: "store \<Rightarrow> string \<Rightarrow> int \<Rightarrow> int \<Rightarrow> string list" where
  "zrange st k start stop =
     (let members = map fst (zentries (zsets st k));
          n = int (length members);
          i = (if start < 0 then max (n + start) 0 else start);
          j = (if stop < 0 then n + stop else min stop (n - 1))
      in if i > j \<or> i \<ge> n then [] else take (nat (j - i + 1)) (drop (nat i) members))"

definition zrangebyscore :: "store \<Rightarrow> string \<Rightarrow> bound \<Rightarrow> bound \<Rightarrow> string list" where
  "zrangebyscore st k lo hi =
     map fst (filter (\<lambda>(m, s). in_range lo hi s) (zentries (zsets st k)))"

definition lindex :: "store \<Rightarrow> string \<Rightarrow> int \<Rightarrow> string option" where
  "lindex st k i =
     (let l = lists st k;
          n = int (length l);
          j = (if i < 0 then n + i else i)
      in if 0 \<le> j \<and> j < n then Some (l ! nat j) else None)"

text \<open>
  \<^verbatim>\<open>SMEMBERS\<close> replies with the members in no particular order. The order of the reply is
  the parameter \<open>order\<close>; \<open>enumerates order\<close> says that it lists every member once.
\<close>

definition enumerates :: "(string fset \<Rightarrow> string list) \<Rightarrow> bool" where
  "enumerates order = (\<forall>S. distinct (order S) \<and> fset_of_list (order S) = S)"

definition smembers :: "(string fset \<Rightarrow> string list) \<Rightarrow> store \<Rightarrow> string \<Rightarrow> string list" where
  "smembers order st k = order (sets st k)"

subsection \<open>Write commands\<close>

text \<open>
  \<open>perform\<close> executes one write command and gives the integer reply with the new store.
  \<^verbatim>\<open>ZADD\<close> replies with the number of members added. With \<^verbatim>\<open>XX\<close> it only updates members
  that exist and never adds one; with \<^verbatim>\<open>CH\<close> the reply counts the members changed, that
  is, added or given a different score, so a member written with the score it already has
  is not counted.
\<close>

definition logged :: "command \<Rightarrow> store \<Rightarrow> store" where
  "logged c st = st\<lparr>journal := journal st @ [c]\<rparr>"

definition out_of_range :: "zset \<Rightarrow> bound \<Rightarrow> bound \<Rightarrow> string \<Rightarrow> bool" where
  "out_of_range z lo hi m =
     (case fmlookup z m of None \<Rightarrow> False | Some s \<Rightarrow> \<not> in_range lo hi s)"

fun perform :: "command \<Rightarrow> store \<Rightarrow> nat \<times> store" where
  "perform (ZADD k m s) st =
     ((if m |\<in>| fmdom (zsets st k) then 0 else 1),
      logged (ZADD k m s) (st\<lparr>zsets := (zsets st)(k := fmupd m s (zsets st k))\<rparr>))"
| "perform (ZADD_XX_CH k m s) st =
     (case fmlookup (zsets st k) m of
        None \<Rightarrow> (0, logged (ZADD_XX_CH k m s) st)
      | Some old \<Rightarrow>
          if old = s then (0, logged (ZADD_XX_CH k m s) st)
          else (1, logged (ZADD_XX_CH k m s)
                     (st\<lparr>zsets := (zsets st)(k := fmupd m s (zsets st k))\<rparr>)))"
| "perform (ZREM k m) st =
     ((if m |\<in>| fmdom (zsets st k) then 1 else 0),
      logged (ZREM k m) (st\<lparr>zsets := (zsets st)(k := fmdrop m (zsets st k))\<rparr>))"
| "perform (ZREMRANGEBYSCORE k lo hi) st =
     (length (zrangebyscore st k lo hi),
      logged (ZREMRANGEBYSCORE k lo hi)
        (st\<lparr>zsets := (zsets st)(k := fmfilter (out_of_range (zsets st k) lo hi) (zsets st k))\<rparr>))"
| "perform (SADD k x) st =
     ((if x |\<in>| sets st k then 0 else 1),
      logged (SADD k x) (st\<lparr>sets := (sets st)(k := finsert x (sets st k))\<rparr>))"
| "perform (SREM k x) st =
     ((if x |\<in>| sets st k then 1 else 0),
      logged (SREM k x) (st\<lparr>sets := (sets st)(k := sets st k |-| {|x|})\<rparr>))"
| "perform (DELETE_TASKS ids) st =
     (length (filter (\<lambda>t. t |\<in>| fmdom (tasks st)) (remdups ids)),
      logged (DELETE_TASKS ids) (st\<lparr>tasks := fmfilter (\<lambda>t. t \<notin> set ids) (tasks st)\<rparr>))"

definition execute :: "command list \<Rightarrow> store \<Rightarrow> store" where
  "execute cmds st = fold (\<lambda>c s. snd (perform c s)) cmds st"

section \<open>Helpers the registries import\<close>

text \<open>
  Modelled from the spec: \<^verbatim>\<open>utils.atomic_pipeline\<close> is missing. Section 4.1: without a
  batch handle the operation opens its own batch, performs its writes and commits before
  returning; with a handle its writes are appended to that batch and committed only when
  the caller commits. A batch is the list of commands queued so far. The result is
  \<open>None\<close> when the method committed its own batch and the caller's batch otherwise.
\<close>

type_synonym pipeline = "command list"

definition atomic_pipeline ::
  "(pipeline \<Rightarrow> pipeline) \<Rightarrow> pipeline option \<Rightarrow> store \<Rightarrow> (py_error + pipeline option) \<times> store" where
  "atomic_pipeline f pipeline st =
     (case pipeline of
        None \<Rightarrow> (Inr None, execute (f []) st)
      | Some pipe \<Rightarrow> (Inr (Some (f pipe)), st))"

text \<open>
  Modelled from the spec: \<^verbatim>\<open>utils.decode_list\<close> is missing. The spec identifies the ids
  read from the store with the ids of tasks and workers, so decoding keeps every element
  and the order of the list.
\<close>

definition decode_list :: "string list \<Rightarrow> string list" where
  "decode_list lst = map (\<lambda>x. x) lst"

text \<open>
  Modelled from the spec: \<^verbatim>\<open>rq.task.Task.delete_many\<close> is missing. Section 4.2, step (c):
  it permanently deletes the underlying task records for the given ids.
\<close>

definition Task_delete_many ::
  "string list \<Rightarrow> pipeline option \<Rightarrow> store \<Rightarrow> (py_error + pipeline option) \<times> store" where
  "Task_delete_many task_ids pipeline st =
     atomic_pipeline (\<lambda>pipe. pipe @ [DELETE_TASKS task_ids]) pipeline st"

section \<open>The registries\<close>

text \<open>
  Each registry object holds only the key of its Redis value. \<^verbatim>\<open>conf.RedisKey\<close> is
  missing; the constructors take it as the parameter \<open>RedisKey\<close>. A task and a worker are
  used through their \<^verbatim>\<open>id\<close> only (\<open>Task_id\<close>, \<open>Worker_id\<close>), a queue through its \<^verbatim>\<open>name\<close>
  (\<open>Queue_name\<close>).
\<close>

record registry =
  key :: string

record Task =
  Task_id :: string

record Worker =
  Worker_id :: string

record Queue =
  Queue_name :: string

subsection \<open>ExpiringRegistry\<close>

definition ExpiringRegistry :: "(string \<Rightarrow> string) \<Rightarrow> string \<Rightarrow> registry" where
  "ExpiringRegistry RedisKey nm = \<lparr>key = RedisKey (nm @ ''_tasks'')\<rparr>"

definition ExpiringRegistry_add ::
  "registry \<Rightarrow> Task \<Rightarrow> pipeline option \<Rightarrow> store \<Rightarrow> (py_error + pipeline option) \<times> store" where
  "ExpiringRegistry_add self task pipeline st =
     (let timestamp = ftime st
      in atomic_pipeline (\<lambda>pipe. pipe @ [ZADD (key self) (Task_id task) timestamp]) pipeline st)"

definition ExpiringRegistry_get_task_ids :: "registry \<Rightarrow> store \<Rightarrow> string list" where
  "ExpiringRegistry_get_task_ids self st = decode_list (zrange st (key self) 0 (- 1))"

definition ExpiringRegistry_expire ::
  "(rat \<Rightarrow> rat \<Rightarrow> bound) \<Rightarrow> settings \<Rightarrow> registry \<Rightarrow> store
     \<Rightarrow> (py_error + unit) \<times> store" where
  "ExpiringRegistry_expire fsub cfg self st =
     (let timestamp = ftime st;
          cutoff_time = fsub timestamp (EXPIRING_REGISTRIES_TTL cfg);
          expired_task_ids =
            decode_list (zrangebyscore st (key self) (Score 0) cutoff_time)
      in if expired_task_ids \<noteq> [] then
           (let st1 = snd (perform (ZREMRANGEBYSCORE (key self) (Score 0) cutoff_time) st)
            in case Task_delete_many expired_task_ids None st1 of
                 (Inl e, st2) \<Rightarrow> (Inl e, st2)
               | (Inr _, st2) \<Rightarrow> (Inr (), st2))
         else (Inr (), st))"

subsection \<open>WorkerRegistry\<close>

definition WorkerRegistry :: "(string \<Rightarrow> string) \<Rightarrow> registry" where
  "WorkerRegistry RedisKey = \<lparr>key = RedisKey ''workers''\<rparr>"

text \<open>
  Python looks a method up by name when it is called and binds the arguments to the
  parameters before the body runs. \<open>WorkerRegistry_methods\<close> lists the methods the class
  defines, each with the number of positional parameters it takes after \<^verbatim>\<open>self\<close>
  (\<^verbatim>\<open>pipeline\<close> is keyword-only). \<open>bound_call nm n\<close> is the outcome of calling the attribute
  \<open>nm\<close> of an instance with \<open>n\<close> positional arguments: a missing attribute raises
  \<^verbatim>\<open>AttributeError\<close>, a wrong number of arguments raises \<^verbatim>\<open>TypeError\<close>.
\<close>

definition WorkerRegistry_methods :: "(string \<times> nat) list" where
  "WorkerRegistry_methods =
     [(''__init__'', 0), (''add'', 1), (''heartbeat'', 1), (''remove'', 1),
      (''get_worker_ids'', 0), (''get_running_task_ids'', 0),
      (''handle_died_workers'', 0), (''get_dead_ids'', 0)]"

definition bound_call :: "string \<Rightarrow> nat \<Rightarrow> py_error + unit" where
  "bound_call nm n =
     (case map_of WorkerRegistry_methods nm of
        None \<Rightarrow> Inl AttributeError
      | Some params \<Rightarrow> if n = params then Inr () else Inl TypeError)"

definition WorkerRegistry_add ::
  "registry \<Rightarrow> Worker \<Rightarrow> pipeline option \<Rightarrow> store \<Rightarrow> (py_error + pipeline option) \<times> store" where
  "WorkerRegistry_add self worker pipeline st =
     (let timestamp = ftime st
      in atomic_pipeline (\<lambda>pipe. pipe @ [ZADD (key self) (Worker_id worker) timestamp]) pipeline st)"

definition WorkerRegistry_heartbeat ::
  "registry \<Rightarrow> Worker \<Rightarrow> store \<Rightarrow> (py_error + unit) \<times> store" where
  "WorkerRegistry_heartbeat self worker st =
     (let timestamp = ftime st;
          (updated, st1) = perform (ZADD_XX_CH (key self) (Worker_id worker) timestamp) st
      in if updated = 0 then (Inl NoSuchWorkerError, st1) else (Inr (), st1))"

definition WorkerRegistry_remove ::
  "registry \<Rightarrow> Worker \<Rightarrow> pipeline option \<Rightarrow> store \<Rightarrow> (py_error + pipeline option) \<times> store" where
  "WorkerRegistry_remove self worker pipeline st =
     atomic_pipeline (\<lambda>pipe. pipe @ [ZREM (key self) (Worker_id worker)]) pipeline st"

definition WorkerRegistry_get_worker_ids :: "registry \<Rightarrow> store \<Rightarrow> string list" where
  "WorkerRegistry_get_worker_ids self st =
     decode_list (zrangebyscore st (key self) NegInf PosInf)"

text \<open>
  The Lua script of \<^verbatim>\<open>get_running_task_ids\<close> runs on the server against one store. Its
  loop over \<^verbatim>\<open>worker_ids\<close> is \<open>collect_task_ids\<close>, with the table \<^verbatim>\<open>task_ids\<close> as the
  accumulator; \<^verbatim>\<open>LINDEX\<close> replies \<^verbatim>\<open>false\<close> to Lua when the list has no element there.
\<close>

fun collect_task_ids :: "store \<Rightarrow> string \<Rightarrow> string list \<Rightarrow> string list \<Rightarrow> string list" where
  "collect_task_ids st task_key_prefix [] task_ids = task_ids"
| "collect_task_ids st task_key_prefix (worker_id # worker_ids) task_ids =
     (let task_key = task_key_prefix @ worker_id
      in case lindex st task_key 0 of
           None \<Rightarrow> collect_task_ids st task_key_prefix worker_ids task_ids
         | Some task_id \<Rightarrow>
             collect_task_ids st task_key_prefix worker_ids (task_ids @ [task_id]))"

definition lua :: "string \<Rightarrow> string \<Rightarrow> store \<Rightarrow> string list" where
  "lua workers_key task_key_prefix st =
     (let worker_ids = zrange st workers_key 0 (- 1)
      in collect_task_ids st task_key_prefix worker_ids [])"

definition WorkerRegistry_get_running_task_ids ::
  "(string \<Rightarrow> string) \<Rightarrow> registry \<Rightarrow> store \<Rightarrow> string list" where
  "WorkerRegistry_get_running_task_ids RedisKey self st =
     (let task_key_prefix = RedisKey ''worker_task:''
      in decode_list (lua (key self) task_key_prefix st))"

definition WorkerRegistry_get_dead_ids ::
  "(rat \<Rightarrow> rat \<Rightarrow> bound) \<Rightarrow> settings \<Rightarrow> registry \<Rightarrow> store \<Rightarrow> string list" where
  "WorkerRegistry_get_dead_ids fsub cfg self st =
     (let oldest_valid = fsub (ftime st) (WORKER_HEARTBEAT_TIMEOUT cfg)
      in decode_list (zrangebyscore st (key self) NegInf oldest_valid))"

text \<open>
  \<^verbatim>\<open>rq.worker\<close> is missing: \<open>died\<close> stands for \<^verbatim>\<open>Worker.fetch(worker_id).died()\<close>, the
  loading of one worker's record followed by its declare-died transition. The loop stops
  at the first exception, as the source has no handler.
\<close>

fun for_each_died ::
  "(string \<Rightarrow> store \<Rightarrow> (py_error + unit) \<times> store) \<Rightarrow> string list \<Rightarrow> store
     \<Rightarrow> (py_error + unit) \<times> store" where
  "for_each_died died [] st = (Inr (), st)"
| "for_each_died died (worker_id # died_worker_ids) st =
     (case died worker_id st of
        (Inl e, st1) \<Rightarrow> (Inl e, st1)
      | (Inr _, st1) \<Rightarrow> for_each_died died died_worker_ids st1)"

text \<open>
  \<^verbatim>\<open>worker_registry.get_dead_ids(self)\<close> is a call on the module's instance
  \<^verbatim>\<open>worker_registry\<close>, of the same class, with one positional argument, the registry the
  method was called on. The import of \<^verbatim>\<open>rq.worker\<close> is taken to succeed.
\<close>

definition WorkerRegistry_handle_died_workers ::
  "(string \<Rightarrow> store \<Rightarrow> (py_error + unit) \<times> store) \<Rightarrow> (rat \<Rightarrow> rat \<Rightarrow> bound) \<Rightarrow> settings
     \<Rightarrow> registry \<Rightarrow> registry \<Rightarrow> store \<Rightarrow> (py_error + unit) \<times> store" where
  "WorkerRegistry_handle_died_workers died fsub cfg worker_registry self st =
     (case bound_call ''get_dead_ids'' 1 of
        Inl e \<Rightarrow> (Inl e, st)
      | Inr _ \<Rightarrow>
          (let died_worker_ids = WorkerRegistry_get_dead_ids fsub cfg worker_registry st
           in for_each_died died died_worker_ids st))"

text \<open>
  \<^verbatim>\<open>registry_maintenance\<close> calls \<^verbatim>\<open>worker_registry.handle_dead_workers()\<close>, an attribute of
  the instance called with no argument.
\<close>

definition registry_maintenance ::
  "(string \<Rightarrow> store \<Rightarrow> (py_error + unit) \<times> store) \<Rightarrow> (rat \<Rightarrow> rat \<Rightarrow> bound) \<Rightarrow> settings
     \<Rightarrow> registry \<Rightarrow> registry \<Rightarrow> registry \<Rightarrow> store \<Rightarrow> (py_error + unit) \<times> store" where
  "registry_maintenance died fsub cfg finished_task_registry failed_task_registry worker_registry
     st =
     (case ExpiringRegistry_expire fsub cfg finished_task_registry st of
        (Inl e, st1) \<Rightarrow> (Inl e, st1)
      | (Inr _, st1) \<Rightarrow>
          (case ExpiringRegistry_expire fsub cfg failed_task_registry st1 of
             (Inl e, st2) \<Rightarrow> (Inl e, st2)
           | (Inr _, st2) \<Rightarrow>
               (case bound_call ''handle_dead_workers'' 0 of
                  Inl e \<Rightarrow> (Inl e, st2)
                | Inr _ \<Rightarrow>
                    WorkerRegistry_handle_died_workers died fsub cfg worker_registry
                      worker_registry st2)))"

subsection \<open>QueueRegistry\<close>

definition QueueRegistry :: "(string \<Rightarrow> string) \<Rightarrow> registry" where
  "QueueRegistry RedisKey = \<lparr>key = RedisKey ''queues''\<rparr>"

definition QueueRegistry_get_names ::
  "(string fset \<Rightarrow> string list) \<Rightarrow> registry \<Rightarrow> store \<Rightarrow> string list" where
  "QueueRegistry_get_names order self st = sort (decode_list (smembers order st (key self)))"

definition QueueRegistry_add ::
  "registry \<Rightarrow> Queue \<Rightarrow> pipeline option \<Rightarrow> store \<Rightarrow> (py_error + pipeline option) \<times> store" where
  "QueueRegistry_add self queue pipeline st =
     atomic_pipeline (\<lambda>pipe. pipe @ [SADD (key self) (Queue_name queue)]) pipeline st"

definition QueueRegistry_remove ::
  "registry \<Rightarrow> Queue \<Rightarrow> pipeline option \<Rightarrow> store \<Rightarrow> (py_error + pipeline option) \<times> store" where
  "QueueRegistry_remove self queue pipeline st =
     atomic_pipeline (\<lambda>pipe. pipe @ [SREM (key self) (Queue_name queue)]) pipeline st"

section \<open>Example stores\<close>

text \<open>
  Concrete stores on which the theorems below are instantiated. Keys are built with the
  prefix \<^verbatim>\<open>rq:\<close>. In \<open>example_settings\<close> the registry TTL and the heartbeat timeout are
  both 60 seconds, in \<open>unit_settings\<close> both are 1 second. The clock stands at 100, except in
  \<open>rounding_store\<close>, where it stands at \<open>10 ^ 17\<close>: doubles of that size are 16 apart.
\<close>

definition example_settings :: settings where
  "example_settings = \<lparr>EXPIRING_REGISTRIES_TTL = 60, WORKER_HEARTBEAT_TIMEOUT = 60\<rparr>"

definition unit_settings :: settings where
  "unit_settings = \<lparr>EXPIRING_REGISTRIES_TTL = 1, WORKER_HEARTBEAT_TIMEOUT = 1\<rparr>"

definition finished_example :: registry where
  "finished_example = ExpiringRegistry (\<lambda>nm. ''rq:'' @ nm) ''finished''"

definition workers_example :: registry where
  "workers_example = WorkerRegistry (\<lambda>nm. ''rq:'' @ nm)"

definition fresh_store :: store where
  "fresh_store =
     \<lparr>zsets = (\<lambda>k. if k = ''rq:finished_tasks''
                     then fmupd ''tx'' 41 (fmupd ''ty'' 70 fmempty) else fmempty),
      sets = (\<lambda>k. {||}),
      lists = (\<lambda>k. []),
      tasks = fmupd ''tx'' ''done'' (fmupd ''ty'' ''done'' fmempty),
      clock = 100,
      journal = []\<rparr>"

definition expiring_store :: store where
  "expiring_store =
     \<lparr>zsets = (\<lambda>k. if k = ''rq:finished_tasks''
                     then fmupd ''tx'' 40 (fmupd ''ty'' 41 fmempty) else fmempty),
      sets = (\<lambda>k. {||}),
      lists = (\<lambda>k. []),
      tasks = fmupd ''tx'' ''done'' (fmupd ''ty'' ''done'' fmempty),
      clock = 100,
      journal = []\<rparr>"

definition rounding_store :: store where
  "rounding_store =
     \<lparr>zsets = (\<lambda>k. if k = ''rq:finished_tasks'' then fmupd ''tx'' (10 ^ 17) fmempty
                     else if k = ''rq:workers'' then fmupd ''w1'' (10 ^ 17) fmempty
                     else fmempty),
      sets = (\<lambda>k. {||}),
      lists = (\<lambda>k. []),
      tasks = fmupd ''tx'' ''done'' fmempty,
      clock = 10 ^ 17,
      journal = []\<rparr>"

definition negative_store :: store where
  "negative_store =
     \<lparr>zsets = (\<lambda>k. if k = ''rq:finished_tasks'' then fmupd ''tn'' (- 5) fmempty else fmempty),
      sets = (\<lambda>k. {||}),
      lists = (\<lambda>k. []),
      tasks = fmupd ''tn'' ''done'' fmempty,
      clock = 100,
      journal = []\<rparr>"

definition same_tick_store :: store where
  "same_tick_store =
     \<lparr>zsets = (\<lambda>k. if k = ''rq:workers'' then fmupd ''w1'' 100 fmempty else fmempty),
      sets = (\<lambda>k. {||}),
      lists = (\<lambda>k. []),
      tasks = fmempty,
      clock = 100,
      journal = []\<rparr>"

definition liveness_store :: store where
  "liveness_store =
     \<lparr>zsets = (\<lambda>k. if k = ''rq:workers''
                     then fmupd ''w1'' 40 (fmupd ''w2'' 41 (fmupd ''w0'' 7 fmempty)) else fmempty),
      sets = (\<lambda>k. {||}),
      lists = (\<lambda>k. if k = ''rq:worker_task:w1'' then [''t1'']
                     else if k = ''rq:worker_task:w0'' then [''t0''] else []),
      tasks = fmempty,
      clock = 100,
      journal = []\<rparr>"

definition ghost :: Worker where
  "ghost = \<lparr>Worker_id = ''ghost''\<rparr>"

definition rq_key :: "string \<Rightarrow> string" where
  "rq_key nm = ''rq:'' @ nm"

definition shared_task_store :: store where
  "shared_task_store =
     \<lparr>zsets = (\<lambda>k. if k = ''rq:workers''
                     then fmupd ''w1'' 10 (fmupd ''w2'' 20 fmempty) else fmempty),
      sets = (\<lambda>k. {||}),
      lists = (\<lambda>k. if k = ''rq:worker_task:w1'' then [''t1'']
                     else if k = ''rq:worker_task:w2'' then [''t1''] else []),
      tasks = fmempty,
      clock = 100,
      journal = []\<rparr>"

definition queues_example :: registry where
  "queues_example = QueueRegistry rq_key"

definition queue_store :: store where
  "queue_store =
     \<lparr>zsets = (\<lambda>k. fmempty),
      sets = (\<lambda>k. if k = ''rq:queues'' then {|''low'', ''default'', ''high''|} else {||}),
      lists = (\<lambda>k. []),
      tasks = fmempty,
      clock = 100,
      journal = []\<rparr>"

definition descending :: "string fset \<Rightarrow> string list" where
  "descending S = rev (sorted_list_of_fset S)"

section \<open>Enumerating a sorted set\<close>

lemma set_sorted_list_of_fmap:
  "set (sorted_list_of_fmap z) = {(m, s). fmlookup z m = Some s}"
  by (auto simp: sorted_list_of_fmap_def fmlookup_dom_iff)

lemma distinct_sorted_list_of_fset: "distinct (sorted_list_of_fset S)"
  by (simp add: sorted_list_of_fset.rep_eq)

lemma distinct_keys_sorted_list_of_fmap: "distinct (map fst (sorted_list_of_fmap z))"
  by (simp add: sorted_list_of_fmap_def comp_def distinct_sorted_list_of_fset)

lemma set_zentries: "set (zentries z) = {(m, s). fmlookup z m = Some s}"
  by (simp add: zentries_def set_sorted_list_of_fmap)

lemma mem_zentries: "(m, s) \<in> set (zentries z) \<longleftrightarrow> fmlookup z m = Some s"
  by (simp add: set_zentries)

lemma distinct_zentries: "distinct (map fst (zentries z))"
  using distinct_keys_sorted_list_of_fmap [of z]
  by (simp add: zentries_def distinct_map)

lemma sorted_zentries: "sorted (map snd (zentries z))"
proof -
  have "sorted (map (\<lambda>(m, s). (s, m)) (zentries z))"
    unfolding zentries_def by (rule sorted_sort_key)
  then have "sorted_wrt (\<lambda>x y. (snd x, fst x) \<le> (snd y, fst y)) (zentries z)"
    by (simp add: sorted_wrt_map case_prod_beta)
  then have "sorted_wrt (\<lambda>x y. snd x \<le> snd y) (zentries z)"
    by (rule sorted_wrt_mono_rel [rotated]) (auto simp: less_eq_prod_def)
  then show ?thesis
    by (simp add: sorted_wrt_map)
qed

lemma zrange_all: "zrange st k 0 (- 1) = map fst (zentries (zsets st k))"
  by (simp add: zrange_def Let_def)

lemma set_zrangebyscore:
  "set (zrangebyscore st k lo hi) =
     {m. \<exists>s. fmlookup (zsets st k) m = Some s \<and> in_range lo hi s}"
  by (force simp: zrangebyscore_def mem_zentries)

lemma distinct_zrangebyscore: "distinct (zrangebyscore st k lo hi)"
  unfolding zrangebyscore_def by (rule distinct_map_filter) (rule distinct_zentries)

section \<open>ExpiringRegistry.expire\<close>

lemma filter_out_of_range:
  "fmfilter (out_of_range (zsets st k) lo hi) (zsets st k) =
     fmfilter (\<lambda>m. m \<notin> set (zrangebyscore st k lo hi)) (zsets st k)"
  by (rule fmfilter_cong) (simp add: out_of_range_def set_zrangebyscore)

lemma Task_delete_many_standalone:
  "Task_delete_many ids None st =
     (Inr None, logged (DELETE_TASKS ids) (st\<lparr>tasks := fmfilter (\<lambda>t. t \<notin> set ids) (tasks st)\<rparr>))"
  by (simp add: Task_delete_many_def atomic_pipeline_def execute_def)

lemma expire_unfold:
  "ExpiringRegistry_expire fsub cfg self st =
     (let cutoff = fsub (clock st) (EXPIRING_REGISTRIES_TTL cfg);
          ids = zrangebyscore st (key self) (Score 0) cutoff
      in if ids = [] then (Inr (), st)
         else (Inr (),
           st\<lparr>zsets := (zsets st)(key self := fmfilter (\<lambda>m. m \<notin> set ids) (zsets st (key self))),
              tasks := fmfilter (\<lambda>t. t \<notin> set ids) (tasks st),
              journal := journal st @
                [ZREMRANGEBYSCORE (key self) (Score 0) cutoff, DELETE_TASKS ids]\<rparr>))"
  by (simp add: ExpiringRegistry_expire_def Let_def ftime_def decode_list_def
      Task_delete_many_standalone logged_def filter_out_of_range cong del: fmfilter_cong)

lemma expire_never_raises: "fst (ExpiringRegistry_expire fsub cfg self st) = Inr ()"
  by (simp add: expire_unfold Let_def)

lemma double_sub_examples:
  "double_sub 100 60 = Score 40"
  "double_sub (10 ^ 17) 1 = Score (10 ^ 17)"
  "double_sub 1700000000 (double_round (1 / 10)) = Score (3565158399790285 / 2097152)"
  "1700000000 - double_round (1 / 10) < (3565158399790285 / 2097152 :: rat)"
  by code_simp+

text \<open>
  Claim C1 says that an entry added at time \<open>T\<close> is never removed before \<open>now\<close> reaches
  \<open>T + TTL\<close> and is removable once \<open>now \<ge> T + TTL\<close>. The cutoff the source compares with
  is the rounded difference: with the clock at \<open>10 ^ 17\<close> and a TTL of 1 it is \<open>10 ^ 17\<close>
  itself, and the entry \<^verbatim>\<open>tx\<close> added at that very time is removed. The range the source
  asks for starts at 0: the entry \<^verbatim>\<open>tn\<close> with score \<open>-5\<close> stays although \<open>-5 + 60 \<le> 100\<close>.
\<close>

theorem expire_rounding_and_negative_counterexample:
  "fmlookup (zsets rounding_store (key finished_example)) ''tx'' = Some (10 ^ 17)
   \<and> clock rounding_store < 10 ^ 17 + EXPIRING_REGISTRIES_TTL unit_settings
   \<and> ExpiringRegistry_get_task_ids finished_example
        (snd (ExpiringRegistry_expire double_sub unit_settings finished_example rounding_store))
       = []
   \<and> fmlookup (zsets negative_store (key finished_example)) ''tn'' = Some (- 5)
   \<and> - 5 + EXPIRING_REGISTRIES_TTL example_settings \<le> clock negative_store
   \<and> ExpiringRegistry_get_task_ids finished_example
        (snd (ExpiringRegistry_expire double_sub example_settings finished_example
                negative_store))
       = [''tn'']"
  by code_simp

text \<open>
  Claim C1, amended. \<^verbatim>\<open>expire()\<close> computes the cutoff once, as the floating-point
  difference of \<open>now\<close> and the TTL. The ids it reads, \<open>ids\<close>, are exactly the members whose
  score lies in \<open>[0, cutoff]\<close>: no entry with a score above the cutoff, and none with a
  negative score, is among them. Where the subtraction is exact, an entry with a score
  \<open>T \<ge> 0\<close> is among them exactly when \<open>T + TTL \<le> now\<close>. Afterwards the registry holds exactly
  the other entries, every other sorted set is as before, and the task records of exactly
  those ids are gone. When there is something to remove the server has executed the
  range removal first and the deletion of the records second, both with the one cutoff.
\<close>

theorem expire_removes_exactly_the_expired:
  "let cutoff = fsub (clock st) (EXPIRING_REGISTRIES_TTL cfg);
       z = zsets st (key self);
       ids = zrangebyscore st (key self) (Score 0) cutoff;
       res = ExpiringRegistry_expire fsub cfg self st;
       st' = snd res
   in fst res = Inr ()
      \<and> distinct ids
      \<and> set ids = {m. \<exists>s. fmlookup z m = Some s \<and> 0 \<le> s \<and> max_ok s cutoff}
      \<and> (cutoff = Score (clock st - EXPIRING_REGISTRIES_TTL cfg)
           \<longrightarrow> (\<forall>m T. fmlookup z m = Some T \<and> 0 \<le> T
                  \<longrightarrow> (m \<in> set ids \<longleftrightarrow> T + EXPIRING_REGISTRIES_TTL cfg \<le> clock st)))
      \<and> zsets st' (key self) = fmfilter (\<lambda>m. m \<notin> set ids) z
      \<and> (\<forall>k. k \<noteq> key self \<longrightarrow> zsets st' k = zsets st k)
      \<and> tasks st' = fmfilter (\<lambda>t. t \<notin> set ids) (tasks st)
      \<and> journal st' = journal st @
            (if ids = [] then []
             else [ZREMRANGEBYSCORE (key self) (Score 0) cutoff, DELETE_TASKS ids])
      \<and> sets st' = sets st \<and> lists st' = lists st \<and> clock st' = clock st"
proof -
  let ?cutoff = "fsub (clock st) (EXPIRING_REGISTRIES_TTL cfg)"
  let ?z = "zsets st (key self)"
  let ?ids = "zrangebyscore st (key self) (Score 0) ?cutoff"
  let ?res = "ExpiringRegistry_expire fsub cfg self st"
  have c1: "fst ?res = Inr ()"
    by (simp add: expire_unfold Let_def)
  have c2: "distinct ?ids"
    by (rule distinct_zrangebyscore)
  have c3: "set ?ids = {m. \<exists>s. fmlookup ?z m = Some s \<and> 0 \<le> s \<and> max_ok s ?cutoff}"
    by (simp add: set_zrangebyscore in_range_def)
  have c4: "?cutoff = Score (clock st - EXPIRING_REGISTRIES_TTL cfg)
           \<longrightarrow> (\<forall>m T. fmlookup ?z m = Some T \<and> 0 \<le> T
                  \<longrightarrow> (m \<in> set ?ids \<longleftrightarrow> T + EXPIRING_REGISTRIES_TTL cfg \<le> clock st))"
  proof
    assume exact: "?cutoff = Score (clock st - EXPIRING_REGISTRIES_TTL cfg)"
    have ids: "set ?ids = {m. \<exists>s. fmlookup ?z m = Some s \<and> 0 \<le> s
                  \<and> s \<le> clock st - EXPIRING_REGISTRIES_TTL cfg}"
      using c3 by (simp only: exact max_ok.simps)
    show "\<forall>m T. fmlookup ?z m = Some T \<and> 0 \<le> T
                  \<longrightarrow> (m \<in> set ?ids \<longleftrightarrow> T + EXPIRING_REGISTRIES_TTL cfg \<le> clock st)"
      unfolding ids by auto
  qed
  have c5: "zsets (snd ?res) (key self) = fmfilter (\<lambda>m. m \<notin> set ?ids) ?z"
    by (cases "?ids = []") (simp_all add: expire_unfold Let_def)
  have c6: "\<forall>k. k \<noteq> key self \<longrightarrow> zsets (snd ?res) k = zsets st k"
    by (simp add: expire_unfold Let_def)
  have c7: "tasks (snd ?res) = fmfilter (\<lambda>t. t \<notin> set ?ids) (tasks st)"
    by (cases "?ids = []") (simp_all add: expire_unfold Let_def)
  have c8: "journal (snd ?res) = journal st @
            (if ?ids = [] then []
             else [ZREMRANGEBYSCORE (key self) (Score 0) ?cutoff, DELETE_TASKS ?ids])"
    by (simp add: expire_unfold Let_def)
  have c9: "sets (snd ?res) = sets st \<and> lists (snd ?res) = lists st \<and> clock (snd ?res) = clock st"
    by (simp add: expire_unfold Let_def)
  show ?thesis
    unfolding Let_def by (intro conjI c1 c2 c3 c4 c5 c6 c7 c8 c9 [THEN conjunct1]
        c9 [THEN conjunct2, THEN conjunct1] c9 [THEN conjunct2, THEN conjunct2])
qed

theorem expire_removes_exactly_the_expired_witness:
  "double_sub (clock expiring_store) (EXPIRING_REGISTRIES_TTL example_settings)
     = Score (clock expiring_store - EXPIRING_REGISTRIES_TTL example_settings)
   \<and> fmlookup (zsets expiring_store (key finished_example)) ''tx'' = Some 40
   \<and> (0::rat) \<le> 40
   \<and> 40 + EXPIRING_REGISTRIES_TTL example_settings \<le> clock expiring_store
   \<and> ''tx'' \<in> set (zrangebyscore expiring_store (key finished_example) (Score 0)
         (double_sub (clock expiring_store) (EXPIRING_REGISTRIES_TTL example_settings)))"
proof -
  have h0: "double_sub (clock expiring_store) (EXPIRING_REGISTRIES_TTL example_settings)
     = Score (clock expiring_store - EXPIRING_REGISTRIES_TTL example_settings)"
    by code_simp
  have h1: "fmlookup (zsets expiring_store (key finished_example)) ''tx'' = Some 40"
    by (simp add: expiring_store_def finished_example_def ExpiringRegistry_def)
  have h2: "40 + EXPIRING_REGISTRIES_TTL example_settings \<le> clock expiring_store"
    by (simp add: expiring_store_def example_settings_def)
  have h3: "(0::rat) \<le> 40" by simp
  have "double_sub (clock expiring_store) (EXPIRING_REGISTRIES_TTL example_settings)
          = Score (clock expiring_store - EXPIRING_REGISTRIES_TTL example_settings)
    \<longrightarrow> (\<forall>m T. fmlookup (zsets expiring_store (key finished_example)) m = Some T \<and> 0 \<le> T
     \<longrightarrow> (m \<in> set (zrangebyscore expiring_store (key finished_example) (Score 0)
         (double_sub (clock expiring_store) (EXPIRING_REGISTRIES_TTL example_settings)))
       \<longleftrightarrow> T + EXPIRING_REGISTRIES_TTL example_settings \<le> clock expiring_store))"
    using expire_removes_exactly_the_expired
      [where st = expiring_store and cfg = example_settings and self = finished_example
        and fsub = double_sub]
    unfolding Let_def by (elim conjE)
  then have "\<forall>m T. fmlookup (zsets expiring_store (key finished_example)) m = Some T \<and> 0 \<le> T
     \<longrightarrow> (m \<in> set (zrangebyscore expiring_store (key finished_example) (Score 0)
         (double_sub (clock expiring_store) (EXPIRING_REGISTRIES_TTL example_settings)))
       \<longleftrightarrow> T + EXPIRING_REGISTRIES_TTL example_settings \<le> clock expiring_store)"
    using h0 by (rule mp)
  with h1 h2 h3 have "''tx'' \<in> set (zrangebyscore expiring_store (key finished_example) (Score 0)
         (double_sub (clock expiring_store) (EXPIRING_REGISTRIES_TTL example_settings)))"
    by blast
  with h0 h1 h3 h2 show ?thesis
    by (intro conjI)
qed

lemma expire_example_run:
  "ExpiringRegistry_get_task_ids finished_example
     (snd (ExpiringRegistry_expire double_sub example_settings finished_example expiring_store))
     = [''ty'']
   \<and> journal
       (snd (ExpiringRegistry_expire double_sub example_settings finished_example expiring_store))
       = [ZREMRANGEBYSCORE ''rq:finished_tasks'' (Score 0) (Score 40), DELETE_TASKS [''tx'']]"
  by code_simp

text \<open>
  Claim C10 says that \<^verbatim>\<open>expire()\<close> mutates nothing when no entry has a score at or below
  \<open>now - TTL\<close>. The source compares with the rounded difference: with the clock at
  \<open>10 ^ 17\<close> and a TTL of 1 the only entry, with score \<open>10 ^ 17\<close>, is above \<open>now - TTL\<close>, yet the
  computed cutoff is \<open>10 ^ 17\<close> and the source removes the entry and deletes its record.
\<close>

theorem expire_fresh_by_exact_cutoff_counterexample:
  "zentries (zsets rounding_store (key finished_example)) = [(''tx'', 10 ^ 17)]
   \<and> clock rounding_store - EXPIRING_REGISTRIES_TTL unit_settings < 10 ^ 17
   \<and> journal
       (snd (ExpiringRegistry_expire double_sub unit_settings finished_example rounding_store))
       = [ZREMRANGEBYSCORE ''rq:finished_tasks'' (Score 0) (Score (10 ^ 17)),
          DELETE_TASKS [''tx'']]"
  by code_simp

text \<open>
  Claim C10, amended. When no entry of the registry has a score at or below the cutoff
  the source computes, the floating-point difference of \<open>now\<close> and the TTL,
  \<^verbatim>\<open>expire()\<close> returns with the store exactly as it was: the registry is unchanged and,
  the journal being unchanged, neither the range removal nor \<^verbatim>\<open>Task.delete_many\<close> has
  been issued.
\<close>

theorem expire_all_fresh_is_noop:
  assumes "\<forall>m s. fmlookup (zsets st (key self)) m = Some s
             \<longrightarrow> \<not> max_ok s (fsub (clock st) (EXPIRING_REGISTRIES_TTL cfg))"
  shows "ExpiringRegistry_expire fsub cfg self st = (Inr (), st)"
proof -
  let ?cutoff = "fsub (clock st) (EXPIRING_REGISTRIES_TTL cfg)"
  have "set (zrangebyscore st (key self) (Score 0) ?cutoff) = {}"
  proof -
    have "\<not> max_ok s ?cutoff" if "fmlookup (zsets st (key self)) m = Some s" for m s
      using assms that by blast
    then show ?thesis
      by (auto simp: set_zrangebyscore in_range_def)
  qed
  then have "zrangebyscore st (key self) (Score 0) ?cutoff = []"
    by simp
  then show ?thesis
    by (simp add: expire_unfold Let_def)
qed

theorem expire_all_fresh_is_noop_witness:
  "zentries (zsets fresh_store (key finished_example)) = [(''tx'', 41), (''ty'', 70)]
   \<and> double_sub (clock fresh_store) (EXPIRING_REGISTRIES_TTL example_settings) = Score 40
   \<and> ExpiringRegistry_expire double_sub example_settings finished_example fresh_store
       = (Inr (), fresh_store)"
proof -
  have e: "zentries (zsets fresh_store (key finished_example)) = [(''tx'', 41), (''ty'', 70)]"
    by code_simp
  have c: "double_sub (clock fresh_store) (EXPIRING_REGISTRIES_TTL example_settings) = Score 40"
    by code_simp
  have h: "\<forall>m s. fmlookup (zsets fresh_store (key finished_example)) m = Some s
       \<longrightarrow> \<not> max_ok s (double_sub (clock fresh_store) (EXPIRING_REGISTRIES_TTL example_settings))"
    unfolding c
    by (auto simp: fresh_store_def finished_example_def ExpiringRegistry_def split: if_splits)
  have "ExpiringRegistry_expire double_sub example_settings finished_example fresh_store
       = (Inr (), fresh_store)"
    using h by (rule expire_all_fresh_is_noop)
  with e c show ?thesis
    by (intro conjI)
qed

section \<open>WorkerRegistry.heartbeat\<close>

lemma heartbeat_unfold:
  "WorkerRegistry_heartbeat self worker st =
     (let cmd = ZADD_XX_CH (key self) (Worker_id worker) (clock st)
      in case fmlookup (zsets st (key self)) (Worker_id worker) of
           None \<Rightarrow> (Inl NoSuchWorkerError, st\<lparr>journal := journal st @ [cmd]\<rparr>)
         | Some old \<Rightarrow>
             if old = clock st then (Inl NoSuchWorkerError, st\<lparr>journal := journal st @ [cmd]\<rparr>)
             else (Inr (),
               st\<lparr>zsets := (zsets st)(key self := fmupd (Worker_id worker) (clock st) (zsets st (key self))),
                  journal := journal st @ [cmd]\<rparr>))"
  by (simp add: WorkerRegistry_heartbeat_def ftime_def Let_def logged_def split: option.splits)

lemma heartbeat_raises_iff:
  "fst (WorkerRegistry_heartbeat self worker st) = Inl NoSuchWorkerError
     \<longleftrightarrow> fmlookup (zsets st (key self)) (Worker_id worker) = None
         \<or> fmlookup (zsets st (key self)) (Worker_id worker) = Some (clock st)"
  by (auto simp: heartbeat_unfold Let_def split: option.splits)

text \<open>
  Claim C2 says that \<^verbatim>\<open>heartbeat(worker)\<close> raises \<^verbatim>\<open>NoSuchWorkerError\<close> if and only if the
  worker's id is absent. The source tests the reply of \<^verbatim>\<open>ZADD ... XX CH\<close>, which counts the
  members whose score changed: a worker that is present with a score equal to the current
  time is not counted, and the source raises. Here \<^verbatim>\<open>w1\<close> is registered with score 100 and
  the clock reads 100.
\<close>

theorem heartbeat_same_score_raises:
  "''w1'' |\<in>| fmdom (zsets same_tick_store (key workers_example))
   \<and> fst (WorkerRegistry_heartbeat workers_example \<lparr>Worker_id = ''w1''\<rparr> same_tick_store)
       = Inl NoSuchWorkerError"
  by (simp add: same_tick_store_def workers_example_def WorkerRegistry_def
      WorkerRegistry_heartbeat_def ftime_def)

text \<open>
  Claim C6. \<^verbatim>\<open>heartbeat\<close> never inserts: every sorted set has the same members afterwards.
  For an absent id it raises and nothing but the journal, which records the command the
  server received, differs from the store before the call. In every case no entry other
  than the score of that worker in this registry is modified, and no other part of the
  store is.
\<close>

theorem heartbeat_never_inserts:
  "let res = WorkerRegistry_heartbeat self worker st;
       st' = snd res;
       cmd = ZADD_XX_CH (key self) (Worker_id worker) (clock st)
   in (\<forall>k. fmdom (zsets st' k) = fmdom (zsets st k))
      \<and> (fmlookup (zsets st (key self)) (Worker_id worker) = None
           \<longrightarrow> res = (Inl NoSuchWorkerError, st\<lparr>journal := journal st @ [cmd]\<rparr>))
      \<and> (\<forall>k m. (k, m) \<noteq> (key self, Worker_id worker)
           \<longrightarrow> fmlookup (zsets st' k) m = fmlookup (zsets st k) m)
      \<and> st'\<lparr>zsets := zsets st\<rparr> = st\<lparr>journal := journal st @ [cmd]\<rparr>"
proof -
  let ?res = "WorkerRegistry_heartbeat self worker st"
  let ?cmd = "ZADD_XX_CH (key self) (Worker_id worker) (clock st)"
  have c1: "\<forall>k. fmdom (zsets (snd ?res) k) = fmdom (zsets st k)"
    by (cases "fmlookup (zsets st (key self)) (Worker_id worker)")
      (auto simp: heartbeat_unfold Let_def fmdomI)
  have c2: "fmlookup (zsets st (key self)) (Worker_id worker) = None
           \<longrightarrow> ?res = (Inl NoSuchWorkerError, st\<lparr>journal := journal st @ [?cmd]\<rparr>)"
    by (simp add: heartbeat_unfold Let_def)
  have c3: "\<forall>k m. (k, m) \<noteq> (key self, Worker_id worker)
           \<longrightarrow> fmlookup (zsets (snd ?res) k) m = fmlookup (zsets st k) m"
    by (cases "fmlookup (zsets st (key self)) (Worker_id worker)")
      (auto simp: heartbeat_unfold Let_def)
  have c4: "(snd ?res)\<lparr>zsets := zsets st\<rparr> = st\<lparr>journal := journal st @ [?cmd]\<rparr>"
    by (cases "fmlookup (zsets st (key self)) (Worker_id worker)")
      (auto simp: heartbeat_unfold Let_def)
  show ?thesis
    unfolding Let_def using c1 c2 c3 c4 by blast
qed

theorem heartbeat_never_inserts_witness:
  "fmlookup (zsets liveness_store (key workers_example)) (Worker_id ghost) = None
   \<and> WorkerRegistry_heartbeat workers_example ghost liveness_store =
       (Inl NoSuchWorkerError,
        liveness_store\<lparr>journal := journal liveness_store @
          [ZADD_XX_CH (key workers_example) (Worker_id ghost) (clock liveness_store)]\<rparr>)"
proof -
  have h: "fmlookup (zsets liveness_store (key workers_example)) (Worker_id ghost) = None"
    by (simp add: liveness_store_def workers_example_def WorkerRegistry_def ghost_def)
  from heartbeat_never_inserts
    [where st = liveness_store and self = workers_example and worker = ghost] h
  show ?thesis
    unfolding Let_def by blast
qed

section \<open>WorkerRegistry.get_dead_ids and the sweep\<close>

text \<open>
  Claim C3 says that a worker with \<open>last_heartbeat \<ge> now - HEARTBEAT_TIMEOUT\<close> never appears
  among the dead ids. The range the source asks for is inclusive at its upper bound:
  \<^verbatim>\<open>w1\<close>, last seen at 40 with the clock at 100 and a timeout of 60, is returned. The bound
  is the rounded difference: with the clock at \<open>10 ^ 17\<close> and a timeout of 1 it is \<open>10 ^ 17\<close>,
  and \<^verbatim>\<open>w1\<close>, last seen at that very time, is returned.
\<close>

theorem get_dead_ids_boundary_counterexample:
  "fmlookup (zsets liveness_store (key workers_example)) ''w1'' = Some 40
   \<and> (40::rat) \<ge> clock liveness_store - WORKER_HEARTBEAT_TIMEOUT example_settings
   \<and> ''w1'' \<in> set (WorkerRegistry_get_dead_ids double_sub example_settings workers_example
                      liveness_store)
   \<and> fmlookup (zsets rounding_store (key workers_example)) ''w1'' = Some (10 ^ 17)
   \<and> (10 ^ 17 :: rat) > clock rounding_store - WORKER_HEARTBEAT_TIMEOUT unit_settings
   \<and> ''w1'' \<in> set (WorkerRegistry_get_dead_ids double_sub unit_settings workers_example
                      rounding_store)"
  by code_simp

lemma get_dead_ids_example:
  "WorkerRegistry_get_dead_ids double_sub example_settings workers_example liveness_store
     = [''w0'', ''w1'']"
  by code_simp

text \<open>
  Claim C3, amended. \<^verbatim>\<open>get_dead_ids()\<close> returns exactly the ids whose last heartbeat is at
  or before \<open>oldest_valid\<close>, the floating-point difference of \<open>now\<close> and the heartbeat
  timeout. Where the subtraction is exact, a worker whose last heartbeat is strictly after
  \<open>now - HEARTBEAT_TIMEOUT\<close> never appears, and one whose last heartbeat is at or before it
  always does.
\<close>

theorem get_dead_ids_exact:
  "let oldest_valid = fsub (clock st) (WORKER_HEARTBEAT_TIMEOUT cfg);
       z = zsets st (key self);
       dead = WorkerRegistry_get_dead_ids fsub cfg self st
   in set dead = {m. \<exists>s. fmlookup z m = Some s \<and> max_ok s oldest_valid}
      \<and> (oldest_valid = Score (clock st - WORKER_HEARTBEAT_TIMEOUT cfg)
           \<longrightarrow> (\<forall>m s. fmlookup z m = Some s \<and> s > clock st - WORKER_HEARTBEAT_TIMEOUT cfg
                    \<longrightarrow> m \<notin> set dead)
               \<and> (\<forall>m s. fmlookup z m = Some s \<and> s \<le> clock st - WORKER_HEARTBEAT_TIMEOUT cfg
                    \<longrightarrow> m \<in> set dead))"
proof -
  let ?bound = "fsub (clock st) (WORKER_HEARTBEAT_TIMEOUT cfg)"
  let ?z = "zsets st (key self)"
  let ?dead = "WorkerRegistry_get_dead_ids fsub cfg self st"
  have c1: "set ?dead = {m. \<exists>s. fmlookup ?z m = Some s \<and> max_ok s ?bound}"
    by (simp add: WorkerRegistry_get_dead_ids_def Let_def ftime_def decode_list_def
        set_zrangebyscore in_range_def)
  have c2: "?bound = Score (clock st - WORKER_HEARTBEAT_TIMEOUT cfg)
           \<longrightarrow> (\<forall>m s. fmlookup ?z m = Some s \<and> s > clock st - WORKER_HEARTBEAT_TIMEOUT cfg
                    \<longrightarrow> m \<notin> set ?dead)
               \<and> (\<forall>m s. fmlookup ?z m = Some s \<and> s \<le> clock st - WORKER_HEARTBEAT_TIMEOUT cfg
                    \<longrightarrow> m \<in> set ?dead)"
  proof
    assume exact: "?bound = Score (clock st - WORKER_HEARTBEAT_TIMEOUT cfg)"
    show "(\<forall>m s. fmlookup ?z m = Some s \<and> s > clock st - WORKER_HEARTBEAT_TIMEOUT cfg
                    \<longrightarrow> m \<notin> set ?dead)
               \<and> (\<forall>m s. fmlookup ?z m = Some s \<and> s \<le> clock st - WORKER_HEARTBEAT_TIMEOUT cfg
                    \<longrightarrow> m \<in> set ?dead)"
      unfolding c1 exact by auto
  qed
  show ?thesis
    unfolding Let_def by (intro conjI c1 c2)
qed

theorem get_dead_ids_exact_witness:
  "double_sub (clock liveness_store) (WORKER_HEARTBEAT_TIMEOUT example_settings)
     = Score (clock liveness_store - WORKER_HEARTBEAT_TIMEOUT example_settings)
   \<and> fmlookup (zsets liveness_store (key workers_example)) ''w2'' = Some 41
   \<and> (41::rat) > clock liveness_store - WORKER_HEARTBEAT_TIMEOUT example_settings
   \<and> ''w2'' \<notin> set (WorkerRegistry_get_dead_ids double_sub example_settings workers_example
                      liveness_store)"
proof -
  have h0: "double_sub (clock liveness_store) (WORKER_HEARTBEAT_TIMEOUT example_settings)
     = Score (clock liveness_store - WORKER_HEARTBEAT_TIMEOUT example_settings)"
    by code_simp
  have h1: "fmlookup (zsets liveness_store (key workers_example)) ''w2'' = Some 41"
    by (simp add: liveness_store_def workers_example_def WorkerRegistry_def)
  have h2: "(41::rat) > clock liveness_store - WORKER_HEARTBEAT_TIMEOUT example_settings"
    by (simp add: liveness_store_def example_settings_def)
  have "double_sub (clock liveness_store) (WORKER_HEARTBEAT_TIMEOUT example_settings)
          = Score (clock liveness_store - WORKER_HEARTBEAT_TIMEOUT example_settings)
     \<longrightarrow> (\<forall>m s. fmlookup (zsets liveness_store (key workers_example)) m = Some s
                \<and> s > clock liveness_store - WORKER_HEARTBEAT_TIMEOUT example_settings
            \<longrightarrow> m \<notin> set (WorkerRegistry_get_dead_ids double_sub example_settings
                            workers_example liveness_store))
         \<and> (\<forall>m s. fmlookup (zsets liveness_store (key workers_example)) m = Some s
                \<and> s \<le> clock liveness_store - WORKER_HEARTBEAT_TIMEOUT example_settings
            \<longrightarrow> m \<in> set (WorkerRegistry_get_dead_ids double_sub example_settings
                            workers_example liveness_store))"
    using get_dead_ids_exact
      [where st = liveness_store and self = workers_example and cfg = example_settings
        and fsub = double_sub]
    unfolding Let_def by (elim conjE)
  then have "\<forall>m s. fmlookup (zsets liveness_store (key workers_example)) m = Some s
                \<and> s > clock liveness_store - WORKER_HEARTBEAT_TIMEOUT example_settings
            \<longrightarrow> m \<notin> set (WorkerRegistry_get_dead_ids double_sub example_settings
                            workers_example liveness_store)"
    using h0 by blast
  with h1 h2 have "''w2'' \<notin> set (WorkerRegistry_get_dead_ids double_sub example_settings
                      workers_example liveness_store)"
    by blast
  with h0 h1 h2 show ?thesis
    by (intro conjI)
qed

text \<open>
  Claim C4 says that the maintenance entry point enumerates the dead ids and declares each
  of those workers died, and completes without error when there are none. In the source
  neither call can start: \<^verbatim>\<open>handle_died_workers\<close> passes an argument to \<^verbatim>\<open>get_dead_ids\<close>,
  which takes none, and \<^verbatim>\<open>registry_maintenance\<close> calls \<^verbatim>\<open>handle_dead_workers\<close>, a name the
  class does not define. On every store the first raises \<^verbatim>\<open>TypeError\<close> before any worker
  is looked at, and the second raises \<^verbatim>\<open>AttributeError\<close> after the two registries have
  been expired.
\<close>

theorem dead_worker_sweep_always_raises:
  "WorkerRegistry_handle_died_workers died fsub cfg worker_registry self st
     = (Inl TypeError, st)
   \<and> fst (registry_maintenance died fsub cfg finished_task_registry failed_task_registry
            worker_registry st) = Inl AttributeError"
proof -
  have a: "bound_call ''get_dead_ids'' (Suc 0) = Inl TypeError"
    by (simp add: bound_call_def WorkerRegistry_methods_def)
  have b: "bound_call ''handle_dead_workers'' 0 = Inl AttributeError"
    by (simp add: bound_call_def WorkerRegistry_methods_def)
  obtain st1
    where s1: "ExpiringRegistry_expire fsub cfg finished_task_registry st = (Inr (), st1)"
    using expire_never_raises [of fsub cfg finished_task_registry st]
    by (cases "ExpiringRegistry_expire fsub cfg finished_task_registry st") auto
  obtain st2
    where s2: "ExpiringRegistry_expire fsub cfg failed_task_registry st1 = (Inr (), st2)"
    using expire_never_raises [of fsub cfg failed_task_registry st1]
    by (cases "ExpiringRegistry_expire fsub cfg failed_task_registry st1") auto
  show ?thesis
    by (simp add: WorkerRegistry_handle_died_workers_def registry_maintenance_def a b s1 s2)
qed

lemma dead_worker_sweep_empty_registry:
  "WorkerRegistry_get_dead_ids double_sub example_settings workers_example fresh_store = []
   \<and> fst (WorkerRegistry_handle_died_workers (\<lambda>w s. (Inr (), s)) double_sub example_settings
            workers_example workers_example fresh_store) = Inl TypeError"
  by code_simp

section \<open>WorkerRegistry.get_running_task_ids\<close>

lemma collect_task_ids_eq:
  "collect_task_ids st p ws acc = acc @ List.map_filter (\<lambda>w. lindex st (p @ w) 0) ws"
  by (induction ws arbitrary: acc) (auto simp: List.map_filter_simps Let_def split: option.splits)

lemma set_map_filter: "set (List.map_filter f xs) = {y. \<exists>x \<in> set xs. f x = Some y}"
  by (induction xs) (auto simp: List.map_filter_simps split: option.splits)

lemma distinct_map_filter_inj:
  "distinct ws \<Longrightarrow>
   (\<forall>w \<in> set ws. \<forall>w' \<in> set ws. w \<noteq> w' \<and> f w \<noteq> None \<longrightarrow> f w \<noteq> f w') \<Longrightarrow>
   distinct (List.map_filter f ws)"
proof (induction ws)
  case Nil
  then show ?case by (simp add: List.map_filter_simps)
next
  case (Cons w ws)
  have tl: "distinct (List.map_filter f ws)"
    using Cons by simp
  show ?case
  proof (cases "f w")
    case None
    with tl show ?thesis by (simp add: List.map_filter_simps)
  next
    case (Some t)
    have "t \<notin> set (List.map_filter f ws)"
    proof
      assume "t \<in> set (List.map_filter f ws)"
      then obtain w' where w': "w' \<in> set ws" "f w' = Some t"
        by (auto simp: set_map_filter)
      with Cons.prems(1) have "w \<noteq> w'" by auto
      with Cons.prems(2) Some w' show False by auto
    qed
    with tl Some show ?thesis by (simp add: List.map_filter_simps)
  qed
qed

text \<open>
  Claim C5 says that the list returned by \<^verbatim>\<open>get_running_task_ids()\<close> contains no duplicate
  task id on every store. The script appends the head of each worker's list without
  comparing it with the ids already collected: when the running-task lists of \<^verbatim>\<open>w1\<close> and
  \<^verbatim>\<open>w2\<close> both hold \<^verbatim>\<open>t1\<close>, the id is returned twice.
\<close>

theorem running_task_ids_duplicate_counterexample:
  "WorkerRegistry_get_running_task_ids rq_key workers_example shared_task_store
     = [''t1'', ''t1'']
   \<and> \<not> distinct (WorkerRegistry_get_running_task_ids rq_key workers_example
         shared_task_store)"
  by code_simp

text \<open>
  Claim C5, amended. The workers are enumerated in the order of the sorted set, each
  once. The result is, in that order, the head of the running-task list of each worker
  whose list is non-empty; workers whose list is empty contribute nothing, so a task id is
  returned exactly when it heads the list of some worker of the registry. The result has
  no duplicate whenever no two workers of the registry have the same task id at the head
  of their lists.
\<close>

theorem running_task_ids_in_worker_order:
  "let slot = (\<lambda>w. lindex st (RedisKey ''worker_task:'' @ w) 0);
       ws = map fst (zentries (zsets st (key self)));
       running = WorkerRegistry_get_running_task_ids RedisKey self st
   in set ws = fset (fmdom (zsets st (key self)))
      \<and> distinct ws
      \<and> running = List.map_filter slot ws
      \<and> (\<forall>t. t \<in> set running \<longleftrightarrow> (\<exists>w. w |\<in>| fmdom (zsets st (key self)) \<and> slot w = Some t))
      \<and> ((\<forall>w \<in> set ws. \<forall>w' \<in> set ws. w \<noteq> w' \<and> slot w \<noteq> None \<longrightarrow> slot w \<noteq> slot w')
            \<longrightarrow> distinct running)"
proof -
  let ?slot = "\<lambda>w. lindex st (RedisKey ''worker_task:'' @ w) 0"
  let ?ws = "map fst (zentries (zsets st (key self)))"
  let ?running = "WorkerRegistry_get_running_task_ids RedisKey self st"
  have c1: "set ?ws = fset (fmdom (zsets st (key self)))"
    by (force simp: set_zentries fmlookup_dom_iff)
  have c2: "distinct ?ws"
    by (rule distinct_zentries)
  have c3: "?running = List.map_filter ?slot ?ws"
    by (simp add: WorkerRegistry_get_running_task_ids_def lua_def Let_def decode_list_def
        zrange_all collect_task_ids_eq)
  have "set (List.map_filter ?slot ?ws) = {t. \<exists>w \<in> set ?ws. ?slot w = Some t}"
    by (rule set_map_filter)
  then have c4: "\<forall>t. t \<in> set ?running
      \<longleftrightarrow> (\<exists>w. w |\<in>| fmdom (zsets st (key self)) \<and> ?slot w = Some t)"
    unfolding c3 c1 by blast
  have c5: "(\<forall>w \<in> set ?ws. \<forall>w' \<in> set ?ws. w \<noteq> w' \<and> ?slot w \<noteq> None \<longrightarrow> ?slot w \<noteq> ?slot w')
            \<longrightarrow> distinct ?running"
  proof
    assume inj: "\<forall>w \<in> set ?ws. \<forall>w' \<in> set ?ws. w \<noteq> w' \<and> ?slot w \<noteq> None \<longrightarrow> ?slot w \<noteq> ?slot w'"
    have "distinct (List.map_filter ?slot ?ws)"
      using c2 inj by (rule distinct_map_filter_inj)
    then show "distinct ?running"
      by (simp only: c3)
  qed
  show ?thesis
    unfolding Let_def by (intro conjI c1 c2 c3 c4 c5)
qed

theorem running_task_ids_in_worker_order_witness:
  "map (\<lambda>w. (w, lindex liveness_store (rq_key ''worker_task:'' @ w) 0))
       (map fst (zentries (zsets liveness_store (key workers_example))))
     = [(''w0'', Some ''t0''), (''w1'', Some ''t1''), (''w2'', None)]
   \<and> distinct (WorkerRegistry_get_running_task_ids rq_key workers_example liveness_store)"
proof -
  have e: "map (\<lambda>w. (w, lindex liveness_store (rq_key ''worker_task:'' @ w) 0))
       (map fst (zentries (zsets liveness_store (key workers_example))))
     = [(''w0'', Some ''t0''), (''w1'', Some ''t1''), (''w2'', None)]"
    by code_simp
  have h: "\<forall>w \<in> set (map fst (zentries (zsets liveness_store (key workers_example)))).
      \<forall>w' \<in> set (map fst (zentries (zsets liveness_store (key workers_example)))).
        w \<noteq> w' \<and> lindex liveness_store (rq_key ''worker_task:'' @ w) 0 \<noteq> None
          \<longrightarrow> lindex liveness_store (rq_key ''worker_task:'' @ w) 0
                \<noteq> lindex liveness_store (rq_key ''worker_task:'' @ w') 0"
    by code_simp
  have "(\<forall>w \<in> set (map fst (zentries (zsets liveness_store (key workers_example)))).
      \<forall>w' \<in> set (map fst (zentries (zsets liveness_store (key workers_example)))).
        w \<noteq> w' \<and> lindex liveness_store (rq_key ''worker_task:'' @ w) 0 \<noteq> None
          \<longrightarrow> lindex liveness_store (rq_key ''worker_task:'' @ w) 0
                \<noteq> lindex liveness_store (rq_key ''worker_task:'' @ w') 0)
        \<longrightarrow> distinct (WorkerRegistry_get_running_task_ids rq_key workers_example liveness_store)"
    using running_task_ids_in_worker_order
      [where st = liveness_store and self = workers_example and RedisKey = rq_key]
    unfolding Let_def by (elim conjE)
  then have "distinct (WorkerRegistry_get_running_task_ids rq_key workers_example liveness_store)"
    using h by (rule mp)
  with e show ?thesis
    by (intro conjI)
qed

lemma running_task_ids_example:
  "WorkerRegistry_get_running_task_ids rq_key workers_example liveness_store = [''t0'', ''t1'']"
  by code_simp

section \<open>WorkerRegistry.get_worker_ids\<close>

text \<open>
  Claim C7. \<^verbatim>\<open>get_worker_ids()\<close> returns every id of the liveness registry, whatever its
  score, each once, in ascending order of the last-heartbeat timestamp.
\<close>

theorem get_worker_ids_all_by_heartbeat:
  "let z = zsets st (key self);
       ids = WorkerRegistry_get_worker_ids self st
   in set ids = fset (fmdom z)
      \<and> distinct ids
      \<and> sorted (map (\<lambda>m. the (fmlookup z m)) ids)"
proof -
  let ?z = "zsets st (key self)"
  have ids: "WorkerRegistry_get_worker_ids self st = map fst (zentries ?z)"
    by (simp add: WorkerRegistry_get_worker_ids_def decode_list_def zrangebyscore_def
        in_range_def)
  have eq: "map (\<lambda>m. the (fmlookup ?z m)) (map fst (zentries ?z)) = map snd (zentries ?z)"
    by (auto simp: mem_zentries)
  have c3: "sorted (map (\<lambda>m. the (fmlookup ?z m)) (map fst (zentries ?z)))"
    unfolding eq by (rule sorted_zentries)
  have c1: "set (map fst (zentries ?z)) = fset (fmdom ?z)"
    by (force simp: set_zentries fmlookup_dom_iff)
  have c2: "distinct (map fst (zentries ?z))"
    by (rule distinct_zentries)
  show ?thesis
    unfolding Let_def ids by (intro conjI c1 c2 c3)
qed

lemma get_worker_ids_example:
  "WorkerRegistry_get_worker_ids workers_example liveness_store = [''w0'', ''w1'', ''w2'']"
  by code_simp


section \<open>QueueRegistry\<close>

text \<open>
  Claim C8. Whatever the order in which the store lists the members of the set,
  \<^verbatim>\<open>get_names()\<close> returns exactly the registered queue names, each once, as a list in
  ascending lexicographic order.
\<close>

theorem get_names_sorted:
  assumes "enumerates order"
  shows "let names = QueueRegistry_get_names order self st
         in set names = fset (sets st (key self)) \<and> distinct names \<and> sorted names
            \<and> names = sorted_list_of_fset (sets st (key self))"
proof -
  let ?S = "sets st (key self)"
  have d: "distinct (order ?S)" and f: "fset_of_list (order ?S) = ?S"
    using assms by (simp_all add: enumerates_def)
  have "fset (fset_of_list (order ?S)) = set (order ?S)"
    by (rule fset_of_list.rep_eq)
  then have s: "set (order ?S) = fset ?S"
    by (simp only: f)
  have n: "QueueRegistry_get_names order self st = sort (order ?S)"
    by (simp add: QueueRegistry_get_names_def smembers_def decode_list_def)
  have "sort (order ?S) = sorted_list_of_set (set (order ?S))"
    using d by (simp add: sorted_list_of_set_sort_remdups distinct_remdups_id)
  then have e: "sort (order ?S) = sorted_list_of_fset ?S"
    by (simp only: s sorted_list_of_fset.rep_eq)
  have c1: "set (sort (order ?S)) = fset ?S"
    using s by simp
  have c2: "distinct (sort (order ?S))"
    using d by simp
  have c3: "sorted (sort (order ?S))"
    by simp
  show ?thesis
    unfolding Let_def n by (intro conjI c1 c2 c3 e)
qed

lemma enumerates_descending: "enumerates descending"
proof -
  have "fset (fset_of_list (rev (sorted_list_of_fset S))) = fset S" for S :: "string fset"
    by (simp add: fset_of_list.rep_eq)
  then have "fset_of_list (rev (sorted_list_of_fset S)) = S" for S :: "string fset"
    by (simp only: fset_inject)
  then show ?thesis
    by (simp add: enumerates_def descending_def distinct_sorted_list_of_fset)
qed

theorem get_names_sorted_witness:
  "enumerates descending
   \<and> QueueRegistry_get_names descending queues_example queue_store
       = sorted_list_of_fset (sets queue_store (key queues_example))"
proof -
  have h: "enumerates descending"
    by (rule enumerates_descending)
  have "QueueRegistry_get_names descending queues_example queue_store
       = sorted_list_of_fset (sets queue_store (key queues_example))"
    using get_names_sorted [OF h, where st = queue_store and self = queues_example]
    unfolding Let_def by (elim conjE)
  with h show ?thesis
    by (intro conjI)
qed

lemma get_names_example:
  "QueueRegistry_get_names descending queues_example queue_store = [''default'', ''high'', ''low'']"
  by code_simp

lemma QueueRegistry_add_standalone:
  "QueueRegistry_add self queue None st =
     (Inr None,
      st\<lparr>sets := (sets st)(key self := finsert (Queue_name queue) (sets st (key self))),
         journal := journal st @ [SADD (key self) (Queue_name queue)]\<rparr>)"
  by (simp add: QueueRegistry_add_def atomic_pipeline_def execute_def logged_def)

lemma QueueRegistry_remove_standalone:
  "QueueRegistry_remove self queue None st =
     (Inr None,
      st\<lparr>sets := (sets st)(key self := sets st (key self) |-| {|Queue_name queue|}),
         journal := journal st @ [SREM (key self) (Queue_name queue)]\<rparr>)"
  by (simp add: QueueRegistry_remove_def atomic_pipeline_def execute_def logged_def)

text \<open>
  Claim C9. Called on their own, \<^verbatim>\<open>add(queue)\<close> and \<^verbatim>\<open>remove(queue)\<close> return without error.
  A second \<^verbatim>\<open>add\<close> leaves the store as the first left it, the journal of executed
  commands apart, and the name is a member after either; a second \<^verbatim>\<open>remove\<close> leaves the
  store as the first left it, and the name is absent after either.
\<close>

theorem queue_add_remove_idempotent:
  "let a1 = QueueRegistry_add self queue None st;
       a2 = QueueRegistry_add self queue None (snd a1);
       r1 = QueueRegistry_remove self queue None st;
       r2 = QueueRegistry_remove self queue None (snd r1)
   in fst a1 = Inr None \<and> fst a2 = Inr None
      \<and> (snd a2)\<lparr>journal := journal (snd a1)\<rparr> = snd a1
      \<and> Queue_name queue |\<in>| sets (snd a1) (key self)
      \<and> Queue_name queue |\<in>| sets (snd a2) (key self)
      \<and> fst r1 = Inr None \<and> fst r2 = Inr None
      \<and> (snd r2)\<lparr>journal := journal (snd r1)\<rparr> = snd r1
      \<and> Queue_name queue |\<notin>| sets (snd r1) (key self)
      \<and> Queue_name queue |\<notin>| sets (snd r2) (key self)"
  by (simp add: Let_def QueueRegistry_add_standalone QueueRegistry_remove_standalone)

lemma queue_add_twice_example:
  "QueueRegistry_get_names descending queues_example
     (snd (QueueRegistry_add queues_example \<lparr>Queue_name = ''high''\<rparr> None
        (snd (QueueRegistry_add queues_example \<lparr>Queue_name = ''high''\<rparr> None queue_store))))
     = [''default'', ''high'', ''low'']
   \<and> QueueRegistry_get_names descending queues_example
     (snd (QueueRegistry_remove queues_example \<lparr>Queue_name = ''high''\<rparr> None
        (snd (QueueRegistry_remove queues_example \<lparr>Queue_name = ''high''\<rparr> None queue_store))))
     = [''default'', ''low'']"
  by code_simp


end
